theory Spec2Isabelle
  imports Main
begin

section \<open>Attendance modal (components/AttendanceModal.tsx)\<close>

text \<open>
  Modelled from the spec: the declaration of the enum \<open>AttendanceStatus\<close> lives in
  \<open>api/attendance.api\<close>, which is not among the sources. Its three members are the ones
  the modal uses. \<open>pages/Reports.tsx\<close> compares statuses with the strings
  \<open>'present'\<close> and \<open>'manual_present'\<close>, so every member is a non-empty string and is
  truthy in JavaScript: \<open>!initial[id]\<close> and \<open>studentAttendances[id] || ABSENT\<close>
  therefore only test whether the key is set.
\<close>

datatype AttendanceStatus = PRESENT | MANUAL_PRESENT | ABSENT

text \<open>One element of \<open>attendancesData.data\<close>: the fields the modal reads.\<close>

record Attendance =
  att_studentId :: int
  att_status :: AttendanceStatus

text \<open>One element of \<open>enrollmentsData.data\<close>: the fields the modal reads.\<close>

record Enrollment =
  enr_id :: int
  enr_studentId :: int

text \<open>The argument of \<open>markAttendanceMutation.mutate\<close>: one remote mark-attendance call.\<close>

record AttendanceRequest =
  req_studentId :: int
  req_status :: AttendanceStatus
  req_isManual :: bool

text \<open>The state \<open>studentAttendances : Record<number, AttendanceStatus>\<close>.\<close>

type_synonym studentAttendances = "int \<rightharpoonup> AttendanceStatus"

text \<open>
  The effect that initialises \<open>studentAttendances\<close>. A query result is \<open>None\<close> when
  \<open>attendancesData?.data\<close> (or \<open>enrollmentsData?.data\<close>) is undefined; a list, also
  the empty one, is truthy and is \<open>Some\<close>. The third argument is the state before the
  effect, kept when neither branch runs.
\<close>

definition initFromAttendances :: "Attendance list \<Rightarrow> studentAttendances" where
  "initFromAttendances atts =
     foldl (\<lambda>initial att. initial(att_studentId att \<mapsto> att_status att)) Map.empty atts"

definition initAllAbsent :: "Enrollment list \<Rightarrow> studentAttendances" where
  "initAllAbsent enrs =
     foldl (\<lambda>initial enrollment.
              if initial (enr_studentId enrollment) = None
              then initial(enr_studentId enrollment \<mapsto> ABSENT) else initial)
           Map.empty enrs"

definition initStudentAttendances ::
  "Attendance list option \<Rightarrow> Enrollment list option \<Rightarrow> studentAttendances \<Rightarrow> studentAttendances"
where
  "initStudentAttendances attendancesData enrollmentsData prev =
     (case attendancesData of
        Some atts \<Rightarrow> initFromAttendances atts
      | None \<Rightarrow>
          (case enrollmentsData of
             Some enrs \<Rightarrow> initAllAbsent enrs
           | None \<Rightarrow> prev))"

text \<open>
  \<open>handleAttendanceChange\<close>: the new state and the one call it issues.
\<close>

definition handleAttendanceChange ::
  "int \<Rightarrow> AttendanceStatus \<Rightarrow> bool \<Rightarrow> studentAttendances
     \<Rightarrow> studentAttendances \<times> AttendanceRequest"
where
  "handleAttendanceChange studentId status isManual prev =
     (prev(studentId \<mapsto> status),
      \<lparr>req_studentId = studentId, req_status = status, req_isManual = isManual\<rparr>)"

text \<open>The three buttons of a roster row and the arguments each passes.\<close>

datatype button = PresentButton | ManualButton | AbsentButton

fun onClick :: "button \<Rightarrow> int \<Rightarrow> studentAttendances \<Rightarrow> studentAttendances \<times> AttendanceRequest" where
  "onClick PresentButton studentId prev = handleAttendanceChange studentId PRESENT False prev"
| "onClick ManualButton studentId prev = handleAttendanceChange studentId MANUAL_PRESENT True prev"
| "onClick AbsentButton studentId prev = handleAttendanceChange studentId ABSENT False prev"

text \<open>\<open>handleBulkSave\<close>: the calls it issues, in order.\<close>

definition handleBulkSave :: "Enrollment list option \<Rightarrow> studentAttendances \<Rightarrow> AttendanceRequest list" where
  "handleBulkSave enrollmentsData studentAttendances =
     (case enrollmentsData of
        None \<Rightarrow> []
      | Some enrs \<Rightarrow>
          map (\<lambda>enrollment.
                 \<lparr>req_studentId = enr_studentId enrollment,
                  req_status = (case studentAttendances (enr_studentId enrollment) of
                                  Some status \<Rightarrow> status | None \<Rightarrow> ABSENT),
                  req_isManual = False\<rparr>)
              enrs)"

section \<open>JavaScript numbers and strings, as far as the pages use them\<close>

text \<open>
  A JavaScript number that the pages compute with: an integer or \<open>NaN\<close>. Arithmetic
  with \<open>NaN\<close>, and with \<open>undefined\<close> read as a number, gives \<open>NaN\<close>, and so does
  \<open>Math.max\<close>.
\<close>

datatype jsnum = Num int | NaN

fun jsmul :: "jsnum \<Rightarrow> jsnum \<Rightarrow> jsnum" where
  "jsmul (Num a) (Num b) = Num (a * b)"
| "jsmul _ _ = NaN"

fun jsadd :: "jsnum \<Rightarrow> jsnum \<Rightarrow> jsnum" where
  "jsadd (Num a) (Num b) = Num (a + b)"
| "jsadd _ _ = NaN"

fun jssub :: "jsnum \<Rightarrow> jsnum \<Rightarrow> jsnum" where
  "jssub (Num a) (Num b) = Num (a - b)"
| "jssub _ _ = NaN"

fun Math_max :: "jsnum \<Rightarrow> jsnum \<Rightarrow> jsnum" where
  "Math_max (Num a) (Num b) = Num (max a b)"
| "Math_max _ _ = NaN"

definition isDigit :: "char \<Rightarrow> bool" where
  "isDigit c = (48 \<le> (of_char c :: nat) \<and> (of_char c :: nat) \<le> 57)"

definition digitVal :: "char \<Rightarrow> int" where
  "digitVal c = int (of_char c) - 48"

text \<open>
  \<open>Number(s)\<close> for a string \<open>s\<close>. The conversion is the one of JavaScript on the empty
  string (zero), on every string of decimal digits (its value, leading zeros allowed) and
  on every string that is no numeric literal (\<open>NaN\<close>). Signed, fractional, exponent,
  radix-prefixed and space-padded literals also give \<open>NaN\<close> here, although JavaScript
  reads them as numbers: the value of a time input never has that form.
\<close>

definition Number :: "string \<Rightarrow> jsnum" where
  "Number s =
     (if list_all isDigit s then Num (foldl (\<lambda>acc c. 10 * acc + digitVal c) 0 s) else NaN)"

text \<open>\<open>s.split(sep)\<close> for a one-character separator.\<close>

fun split :: "char \<Rightarrow> string \<Rightarrow> string list" where
  "split sep [] = [[]]"
| "split sep (c # cs) =
     (if c = sep then [] # split sep cs
      else (case split sep cs of [] \<Rightarrow> [[c]] | w # ws \<Rightarrow> (c # w) # ws))"

text \<open>
  An element of an array of numbers read by a destructuring pattern: a missing element is
  \<open>undefined\<close>, which arithmetic turns into \<open>NaN\<close>.
\<close>

definition element :: "jsnum list \<Rightarrow> nat \<Rightarrow> jsnum" where
  "element xs i = (if i < length xs then xs ! i else NaN)"

text \<open>Decimal notation of an integer, as a template literal prints it.\<close>

definition digitChar :: "nat \<Rightarrow> char" where
  "digitChar d = char_of (48 + d)"

fun showNat :: "nat \<Rightarrow> string" where
  "showNat n = (if n < 10 then [digitChar n] else showNat (n div 10) @ [digitChar (n mod 10)])"

declare showNat.simps [simp del]

definition showInt :: "int \<Rightarrow> string" where
  "showInt i = (if i < 0 then CHR ''-'' # showNat (nat (- i)) else showNat (nat i))"

fun showNum :: "jsnum \<Rightarrow> string" where
  "showNum (Num i) = showInt i"
| "showNum NaN = ''NaN''"

text \<open>\<open>xs.join(sep)\<close> on strings.\<close>

fun join :: "string \<Rightarrow> string list \<Rightarrow> string" where
  "join sep [] = []"
| "join sep [x] = x"
| "join sep (x # y # ys) = x @ sep @ join sep (y # ys)"

section \<open>Schedule editor of the batch creation page (pages/BatchCreation.tsx)\<close>

record TimeSlot =
  slot_id :: string
  startTime :: string
  endTime :: string
  durationMinutes :: jsnum

record Schedule =
  days :: "string list"
  timeSlots :: "TimeSlot list"

record BatchFormData =
  title :: string
  software :: string
  mode :: string
  startDate :: string
  endDate :: string
  maxCapacity :: int
  schedule :: Schedule

text \<open>\<open>calculateDuration\<close>: an empty string is falsy.\<close>

definition calculateDuration :: "string \<Rightarrow> string \<Rightarrow> jsnum" where
  "calculateDuration start end' =
     (if start = [] \<or> end' = [] then Num 0
      else
        let startParts = map Number (split CHR '':'' start);
            startHours = element startParts 0;
            startMinutes = element startParts 1;
            endParts = map Number (split CHR '':'' end');
            endHours = element endParts 0;
            endMinutes = element endParts 1;
            startTotal = jsadd (jsmul startHours (Num 60)) startMinutes;
            endTotal = jsadd (jsmul endHours (Num 60)) endMinutes
        in Math_max (Num 0) (jssub endTotal startTotal))"

text \<open>The parameter \<open>field: 'startTime' | 'endTime'\<close> of \<open>handleTimeChange\<close>.\<close>

datatype timeField = StartTimeField | EndTimeField

text \<open>
  What \<open>handleTimeChange\<close> does to the slot at \<open>index\<close>: the field is set, and the
  duration is recomputed when the other time is set.
\<close>

definition changeTime :: "timeField \<Rightarrow> string \<Rightarrow> TimeSlot \<Rightarrow> TimeSlot" where
  "changeTime field value slot =
     (let updated = (case field of
                       StartTimeField \<Rightarrow> slot\<lparr>startTime := value\<rparr>
                     | EndTimeField \<Rightarrow> slot\<lparr>endTime := value\<rparr>)
      in if field = StartTimeField \<and> endTime updated \<noteq> []
         then updated\<lparr>durationMinutes := calculateDuration value (endTime updated)\<rparr>
         else if field = EndTimeField \<and> startTime updated \<noteq> []
         then updated\<lparr>durationMinutes := calculateDuration (startTime updated) value\<rparr>
         else updated)"

text \<open>
  The handlers are closures made for each element of \<open>timeSlots.map\<close>, so \<open>index\<close> is a
  position of the list. A store beyond the end, which JavaScript would turn into a sparse
  array holding a partial object, is \<open>None\<close>.
\<close>

definition handleTimeChange :: "nat \<Rightarrow> timeField \<Rightarrow> string \<Rightarrow> TimeSlot list \<Rightarrow> TimeSlot list option" where
  "handleTimeChange index field value slots =
     (if index < length slots
      then Some (slots[index := changeTime field value (slots ! index)])
      else None)"

definition handleDurationChange :: "nat \<Rightarrow> jsnum \<Rightarrow> TimeSlot list \<Rightarrow> TimeSlot list option" where
  "handleDurationChange index value slots =
     (if index < length slots
      then Some (slots[index := (slots ! index)\<lparr>durationMinutes := Math_max (Num 0) value\<rparr>])
      else None)"

definition handleRemove :: "nat \<Rightarrow> TimeSlot list \<Rightarrow> TimeSlot list" where
  "handleRemove index slots = map snd (filter (\<lambda>(i, _). i \<noteq> index) (enumerate 0 slots))"

text \<open>
  The button that adds a slot; the fresh identifier
  \<open>slot-${Date.now()}-${Math.random()}\<close> is a parameter.
\<close>

definition addTimeSlot :: "string \<Rightarrow> TimeSlot list \<Rightarrow> TimeSlot list" where
  "addTimeSlot fresh currentSlots =
     currentSlots @ [\<lparr>slot_id = fresh, startTime = [], endTime = [], durationMinutes = Num 0\<rparr>]"

text \<open>The checkbox of a weekday.\<close>

definition toggleDay :: "bool \<Rightarrow> string \<Rightarrow> string list \<Rightarrow> string list" where
  "toggleDay checked day currentDays =
     (if checked then currentDays @ [day] else filter (\<lambda>d. d \<noteq> day) currentDays)"

text \<open>One user action on the schedule step, and its effect on the schedule.\<close>

datatype action =
    ToggleDay bool string
  | AddTimeSlot string
  | TimeChange nat timeField string
  | DurationChange nat jsnum
  | Remove nat

fun step :: "action \<Rightarrow> Schedule \<Rightarrow> Schedule option" where
  "step (ToggleDay checked day) s = Some (s\<lparr>days := toggleDay checked day (days s)\<rparr>)"
| "step (AddTimeSlot fresh) s = Some (s\<lparr>timeSlots := addTimeSlot fresh (timeSlots s)\<rparr>)"
| "step (TimeChange index field value) s =
     map_option (\<lambda>slots. s\<lparr>timeSlots := slots\<rparr>) (handleTimeChange index field value (timeSlots s))"
| "step (DurationChange index value) s =
     map_option (\<lambda>slots. s\<lparr>timeSlots := slots\<rparr>) (handleDurationChange index value (timeSlots s))"
| "step (Remove index) s = Some (s\<lparr>timeSlots := handleRemove index (timeSlots s)\<rparr>)"

fun run :: "action list \<Rightarrow> Schedule \<Rightarrow> Schedule option" where
  "run [] s = Some s"
| "run (a # as) s = (case step a s of None \<Rightarrow> None | Some s' \<Rightarrow> run as s')"

text \<open>The rules of \<open>useForm\<close>'s \<open>validate\<close>: each gives an error message or \<open>null\<close>.\<close>

definition validate_title :: "string \<Rightarrow> string option" where
  "validate_title value = (if value = [] then Some ''Title is required'' else None)"

definition validate_software :: "string \<Rightarrow> string option" where
  "validate_software value =
     (if value = [] then Some ''Software is required to suggest candidates'' else None)"

definition validate_mode :: "string \<Rightarrow> string option" where
  "validate_mode value = (if value = [] then Some ''Mode is required'' else None)"

definition validate_startDate :: "string \<Rightarrow> string option" where
  "validate_startDate value = (if value = [] then Some ''Start date is required'' else None)"

definition validate_endDate :: "string \<Rightarrow> string option" where
  "validate_endDate value = (if value = [] then Some ''End date is required'' else None)"

definition validate_maxCapacity :: "int \<Rightarrow> string option" where
  "validate_maxCapacity value = (if value < 1 then Some ''Capacity must be at least 1'' else None)"

definition validate_timeSlots :: "TimeSlot list \<Rightarrow> string option" where
  "validate_timeSlots value =
     (if length value = 0 then Some ''At least one time slot is required'' else None)"

text \<open>\<open>form.validate()\<close>: the errors of all rules; \<open>hasErrors\<close> when there is one.\<close>

definition form_validate :: "BatchFormData \<Rightarrow> string list" where
  "form_validate values =
     List.map_filter (\<lambda>x. x)
       [validate_title (title values),
        validate_software (software values),
        validate_mode (mode values),
        validate_startDate (startDate values),
        validate_endDate (endDate values),
        validate_maxCapacity (maxCapacity values),
        validate_timeSlots (timeSlots (schedule values))]"

definition hasErrors :: "string list \<Rightarrow> bool" where
  "hasErrors errors = (errors \<noteq> [])"

text \<open>
  The validation block that opens \<open>handleNext\<close>: \<open>False\<close> when the handler returns
  early at step \<open>active\<close>, \<open>True\<close> when it goes on (to create the batch after the
  schedule step, and to the next step).
\<close>

definition handleNext_validates :: "nat \<Rightarrow> BatchFormData \<Rightarrow> bool" where
  "handleNext_validates active values =
     (if active = 0 then
        \<not> (validate_title (title values) \<noteq> None
           \<or> validate_software (software values) \<noteq> None
           \<or> mode values = [])
      else if active = 1 then
        (if hasErrors (form_validate values) \<or> length (days (schedule values)) = 0 then False
         else if length (timeSlots (schedule values)) = 0 then False
         else True)
      else True)"

text \<open>
  The \<open>disabled\<close> attribute of the Next button, the only caller of \<open>handleNext\<close>.
  The first two arguments are \<open>createBatchMutation.isPending\<close> and
  \<open>suggestCandidatesMutation.isPending\<close>.
\<close>

definition nextDisabled :: "bool \<Rightarrow> bool \<Rightarrow> nat \<Rightarrow> BatchFormData \<Rightarrow> bool" where
  "nextDisabled createPending suggestPending active values =
     (createPending
      \<or> suggestPending
      \<or> (active = 0 \<and> (title values = [] \<or> mode values = []))
      \<or> (active = 1
          \<and> (startDate values = []
             \<or> endDate values = []
             \<or> length (days (schedule values)) = 0
             \<or> length (timeSlots (schedule values)) = 0)))"

section \<open>Report page (pages/Reports.tsx)\<close>

text \<open>
  The state \<open>filters\<close>: every value is the string of an input element, and a key that
  was never typed in is undefined. A value is truthy when it is set and not empty.
\<close>

type_synonym params = "string \<rightharpoonup> string"

definition given :: "params \<Rightarrow> string \<Rightarrow> bool" where
  "given params key = (case params key of None \<Rightarrow> False | Some v \<Rightarrow> v \<noteq> [])"

text \<open>\<open>${params.key}\<close> inside a template literal.\<close>

definition interpolate :: "params \<Rightarrow> string \<Rightarrow> string" where
  "interpolate params key = (case params key of None \<Rightarrow> ''undefined'' | Some v \<Rightarrow> v)"

text \<open>The identifiers of the array \<open>reportTypes\<close>, in its order.\<close>

definition reportTypes :: "string list" where
  "reportTypes =
     [''all-analysis'', ''student-current-batch'', ''students-without-batch'',
      ''batch-attendance'', ''student-attendance'', ''batches-by-faculty'',
      ''pending-payments'', ''monthwise-payments'', ''portfolio-status'']"

text \<open>
  The \<open>switch\<close> of \<open>fetchReport\<close>: the message of the \<open>Error\<close> it throws, or the
  endpoint it then requests.
\<close>

definition fetchReport_endpoint :: "string \<Rightarrow> params \<Rightarrow> string + string" where
  "fetchReport_endpoint reportType params =
     (if reportType = ''all-analysis'' then Inr ''/reports/all-analysis''
      else if reportType = ''student-current-batch'' then
        (if \<not> given params ''studentId'' then Inl ''Student ID is required''
         else Inr (''/reports/student/'' @ interpolate params ''studentId'' @ ''/current-batch''))
      else if reportType = ''students-without-batch'' then Inr ''/reports/students-without-batch''
      else if reportType = ''batch-attendance'' then
        (if \<not> given params ''batchId'' then Inl ''Batch ID is required''
         else Inr (''/reports/batch-attendance?batchId='' @ interpolate params ''batchId''
                   @ (if given params ''from'' then ''&from='' @ interpolate params ''from'' else [])
                   @ (if given params ''to'' then ''&to='' @ interpolate params ''to'' else [])))
      else if reportType = ''student-attendance'' then
        (if \<not> given params ''studentId'' then Inl ''Student ID is required''
         else Inr (''/reports/student/'' @ interpolate params ''studentId'' @ ''/attendance''
                   @ (if given params ''from'' then ''?from='' @ interpolate params ''from'' else [])
                   @ (if given params ''to''
                      then (if given params ''from'' then ''&'' else ''?'')
                           @ ''to='' @ interpolate params ''to''
                      else [])))
      else if reportType = ''batches-by-faculty'' then
        Inr (''/reports/batches-by-faculty''
             @ (if given params ''facultyId''
                then ''?facultyId='' @ interpolate params ''facultyId'' else [])
             @ (if given params ''from''
                then (if given params ''facultyId'' then ''&'' else ''?'')
                     @ ''from='' @ interpolate params ''from''
                else [])
             @ (if given params ''to''
                then (if given params ''from'' \<or> given params ''facultyId'' then ''&'' else ''?'')
                     @ ''to='' @ interpolate params ''to''
                else []))
      else if reportType = ''pending-payments'' then Inr ''/reports/pending-payments''
      else if reportType = ''monthwise-payments'' then
        Inr (''/reports/monthwise-payments''
             @ (if given params ''month'' then ''?month='' @ interpolate params ''month'' else [])
             @ (if given params ''year''
                then (if given params ''month'' then ''&'' else ''?'')
                     @ ''year='' @ interpolate params ''year''
                else []))
      else if reportType = ''portfolio-status'' then Inr ''/reports/portfolio-status''
      else Inl ''Invalid report type'')"

text \<open>
  A value of a JSON response. An object is the list of its properties, whose keys are
  distinct; numbers are integers, of the range that JavaScript prints in plain decimal
  notation.
\<close>

datatype json =
    JNull
  | JBool bool
  | JNum int
  | JStr string
  | JArr "json list"
  | JObj "(string \<times> json) list"

text \<open>
  \<open>v.key\<close> for the property names the pages read: \<open>None\<close> is \<open>undefined\<close>. None of
  these names is a property of a string, a number, a boolean or an array. The pages read
  a property of \<open>null\<close> in one place only, which is modelled there.
\<close>

fun getProp :: "json \<Rightarrow> string \<Rightarrow> json option" where
  "getProp (JObj kvs) key = map_of kvs key"
| "getProp _ key = None"

fun truthy :: "json \<Rightarrow> bool" where
  "truthy JNull = False"
| "truthy (JBool b) = b"
| "truthy (JNum n) = (n \<noteq> 0)"
| "truthy (JStr s) = (s \<noteq> [])"
| "truthy (JArr _) = True"
| "truthy (JObj _) = True"

text \<open>Truthiness of a value that may be \<open>undefined\<close>.\<close>

definition truthy' :: "json option \<Rightarrow> bool" where
  "truthy' v = (case v of None \<Rightarrow> False | Some j \<Rightarrow> truthy j)"

fun isArray :: "json option \<Rightarrow> bool" where
  "isArray (Some (JArr _)) = True"
| "isArray _ = False"

text \<open>The display templates of \<open>renderContent\<close>, named by the comment above each.\<close>

datatype template =
    PendingPayments
  | AllAnalysis
  | StudentsWithoutBatch
  | PortfolioStatus
  | StudentCurrentBatch
  | StudentAttendance
  | BatchAttendance
  | BatchesByFaculty
  | MonthwisePayments
  | RawJson

text \<open>
  \<open>data.key1.key2\<close>, read only after \<open>data.key1\<close> was found truthy (on \<open>null\<close> or
  \<open>undefined\<close> the read would throw, and is not reached).
\<close>

definition getProp2 :: "json \<Rightarrow> string \<Rightarrow> string \<Rightarrow> json option" where
  "getProp2 data key1 key2 =
     (case getProp data key1 of None \<Rightarrow> None | Some v \<Rightarrow> getProp v key2)"

text \<open>
  \<open>renderContent\<close>, for the \<open>data\<close> it closes over. \<open>renderReportData\<close> calls it
  with a truthy \<open>data\<close> only, so the reads of \<open>data.payments\<close> and the others never
  meet \<open>null\<close>.
\<close>

definition renderContent :: "json \<Rightarrow> template" where
  "renderContent data =
     (if getProp data ''payments'' \<noteq> None \<and> truthy' (getProp data ''summary'')
        then PendingPayments
      else if truthy' (getProp data ''summary'')
            \<and> truthy' (getProp2 data ''summary'' ''students'')
            \<and> truthy' (getProp2 data ''summary'' ''batches'')
        then AllAnalysis
      else if truthy' (getProp data ''students'') \<and> isArray (getProp data ''students'')
        then StudentsWithoutBatch
      else if truthy' (getProp data ''portfolios'') \<and> isArray (getProp data ''portfolios'')
        then PortfolioStatus
      else if truthy' (getProp data ''student'') \<and> truthy' (getProp data ''currentBatch'')
        then StudentCurrentBatch
      else if truthy' (getProp data ''student'') \<and> truthy' (getProp data ''attendances'')
        then StudentAttendance
      else if truthy' (getProp data ''batch'') \<and> truthy' (getProp data ''statistics'')
        then BatchAttendance
      else if truthy' (getProp data ''facultyStatistics'')
            \<and> isArray (getProp data ''facultyStatistics'')
        then BatchesByFaculty
      else if truthy' (getProp data ''monthlyStatistics'')
            \<and> isArray (getProp data ''monthlyStatistics'')
        then MonthwisePayments
      else RawJson)"

text \<open>
  \<open>renderReportData\<close>: nothing is rendered (\<open>null\<close>, here \<open>None\<close>) when there is no
  report or its \<open>data\<close> is falsy; otherwise the template \<open>renderContent\<close> picks for
  \<open>reportData.data\<close>. The argument is \<open>reportData\<close>, \<open>None\<close> when it is \<open>null\<close>.
\<close>

definition renderReportData :: "json option \<Rightarrow> template option" where
  "renderReportData reportData =
     (case reportData of
        None \<Rightarrow> None
      | Some r \<Rightarrow>
          if \<not> truthy r then None
          else (case getProp r ''data'' of
                  None \<Rightarrow> None
                | Some data \<Rightarrow> if truthy data then Some (renderContent data) else None))"

text \<open>
  The selection as the specification words it: the presence predicates in their fixed
  order, each with its template, and the first that holds decides.
\<close>

definition has_payments_and_summary :: "json \<Rightarrow> bool" where
  "has_payments_and_summary data =
     (getProp data ''payments'' \<noteq> None \<and> truthy' (getProp data ''summary''))"

definition has_summary_students_and_batches :: "json \<Rightarrow> bool" where
  "has_summary_students_and_batches data =
     (case getProp data ''summary'' of
        None \<Rightarrow> False
      | Some summary \<Rightarrow>
          truthy summary \<and> truthy' (getProp summary ''students'') \<and> truthy' (getProp summary ''batches''))"

definition has_array :: "string \<Rightarrow> json \<Rightarrow> bool" where
  "has_array key data = isArray (getProp data key)"

definition has_both :: "string \<Rightarrow> string \<Rightarrow> json \<Rightarrow> bool" where
  "has_both key1 key2 data = (truthy' (getProp data key1) \<and> truthy' (getProp data key2))"

definition templateOrder :: "((json \<Rightarrow> bool) \<times> template) list" where
  "templateOrder =
     [(has_payments_and_summary, PendingPayments),
      (has_summary_students_and_batches, AllAnalysis),
      (has_array ''students'', StudentsWithoutBatch),
      (has_array ''portfolios'', PortfolioStatus),
      (has_both ''student'' ''currentBatch'', StudentCurrentBatch),
      (has_both ''student'' ''attendances'', StudentAttendance),
      (has_both ''batch'' ''statistics'', BatchAttendance),
      (has_array ''facultyStatistics'', BatchesByFaculty),
      (has_array ''monthlyStatistics'', MonthwisePayments)]"

definition selectTemplate :: "json \<Rightarrow> template" where
  "selectTemplate data =
     (case find (\<lambda>(holds, t). holds data) templateOrder of
        Some (holds, t) \<Rightarrow> t
      | None \<Rightarrow> RawJson)"

section \<open>Schedule display of the batch list (pages/BatchesList.tsx)\<close>

text \<open>
  \<open>String(v)\<close>, as a template literal and \<open>join\<close> apply it. \<open>join\<close> prints
  \<open>null\<close> and \<open>undefined\<close> elements as the empty string.
\<close>

fun toStr :: "json \<Rightarrow> string" where
  "toStr JNull = ''null''"
| "toStr (JBool b) = (if b then ''true'' else ''false'')"
| "toStr (JNum n) = showInt n"
| "toStr (JStr s) = s"
| "toStr (JArr xs) = join '','' (map (\<lambda>x. if x = JNull then [] else toStr x) xs)"
| "toStr (JObj kvs) = ''[object Object]''"

definition joinValues :: "string \<Rightarrow> json list \<Rightarrow> string" where
  "joinValues sep xs = join sep (map (\<lambda>x. if x = JNull then [] else toStr x) xs)"

text \<open>
  The number an arithmetic operator reads from a value; a string goes through
  \<open>Number\<close>, with the limits stated there.
\<close>

fun toNumber :: "json \<Rightarrow> jsnum" where
  "toNumber JNull = Num 0"
| "toNumber (JBool b) = (if b then Num 1 else Num 0)"
| "toNumber (JNum n) = Num n"
| "toNumber (JStr s) = Number s"
| "toNumber (JArr xs) = Number (toStr (JArr xs))"
| "toNumber (JObj kvs) = NaN"

text \<open>
  \<open>Math.floor(x / 60)\<close> and \<open>x % 60\<close> on the numbers of the model. The remainder of
  JavaScript has the sign of the dividend, and a zero prints without a sign.
\<close>

fun floorDiv60 :: "jsnum \<Rightarrow> jsnum" where
  "floorDiv60 (Num n) = Num (n div 60)"
| "floorDiv60 NaN = NaN"

fun rem60 :: "jsnum \<Rightarrow> jsnum" where
  "rem60 (Num n) = Num (if n < 0 then - ((- n) mod 60) else n mod 60)"
| "rem60 NaN = NaN"

text \<open>
  The exception the display functions can raise: the \<open>TypeError\<close> of reading a
  property of \<open>null\<close>.
\<close>

datatype error = TypeError

text \<open>
  The callback of \<open>timeSlots.map\<close> in \<open>formatTimeSlots\<close>: the text of a slot, or
  \<open>null\<close> (here \<open>None\<close>) for a slot without both times. A \<open>null\<close> element of the
  array makes \<open>slot.startTime\<close> throw.
\<close>

definition formatSlot :: "json \<Rightarrow> error + string option" where
  "formatSlot slot =
     (if slot = JNull then Inl TypeError
      else
        (case (getProp slot ''startTime'', getProp slot ''endTime'') of
           (Some start, Some end') \<Rightarrow>
             if truthy start \<and> truthy end' then
               (let duration =
                      (case getProp slot ''durationMinutes'' of
                         None \<Rightarrow> []
                       | Some d \<Rightarrow>
                           if truthy d
                           then '' ('' @ showNum (floorDiv60 (toNumber d)) @ ''h ''
                                @ showNum (rem60 (toNumber d)) @ ''m)''
                           else [])
                in Inr (Some (toStr start @ '' - '' @ toStr end' @ duration)))
             else Inr None
         | _ \<Rightarrow> Inr None))"

text \<open>\<open>timeSlots.map(...)\<close>: the first slot that throws ends the call.\<close>

fun formatSlots :: "json list \<Rightarrow> error + string option list" where
  "formatSlots [] = Inr []"
| "formatSlots (slot # slots) =
     (case formatSlot slot of
        Inl e \<Rightarrow> Inl e
      | Inr r \<Rightarrow> (case formatSlots slots of Inl e \<Rightarrow> Inl e | Inr rs \<Rightarrow> Inr (r # rs)))"

text \<open>\<open>.filter(Boolean)\<close> on strings and \<open>null\<close>: it keeps the non-empty strings.\<close>

definition filterBoolean :: "string option list \<Rightarrow> string list" where
  "filterBoolean rs =
     List.map_filter (\<lambda>r. case r of None \<Rightarrow> None | Some t \<Rightarrow> if t = [] then None else Some t) rs"

text \<open>
  The three readers take the schedule of a batch: \<open>None\<close> when it is \<open>undefined\<close>, a
  \<open>JStr\<close> when the backend sent the serialized form, an object otherwise.
  \<open>JSON.parse\<close> belongs to the platform and is the parameter \<open>parse\<close>: \<open>None\<close> when
  it throws (the text is not valid JSON), the value otherwise.
\<close>

definition formatTimeSlots :: "(string \<Rightarrow> json option) \<Rightarrow> json option \<Rightarrow> error + string" where
  "formatTimeSlots parse schedule' =
     (case schedule' of
        None \<Rightarrow> Inr ''Not specified''
      | Some sch \<Rightarrow>
          if \<not> truthy sch then Inr ''Not specified''
          else
            (case (case sch of JStr text \<Rightarrow> parse text | _ \<Rightarrow> Some sch) of
               None \<Rightarrow> Inr ''Not specified''
             | Some scheduleObj \<Rightarrow>
                 if \<not> truthy scheduleObj then Inr ''Not specified''
                 else
                   (case getProp scheduleObj ''timeSlots'' of
                      Some (JArr slots) \<Rightarrow>
                        (case formatSlots slots of
                           Inl e \<Rightarrow> Inl e
                         | Inr rs \<Rightarrow>
                             (let formatted = join '', '' (filterBoolean rs)
                              in Inr (if formatted = [] then ''Not specified'' else formatted)))
                    | _ \<Rightarrow> Inr ''Not specified'')))"

definition formatDays :: "(string \<Rightarrow> json option) \<Rightarrow> json option \<Rightarrow> string" where
  "formatDays parse schedule' =
     (case schedule' of
        None \<Rightarrow> ''Not specified''
      | Some sch \<Rightarrow>
          if \<not> truthy sch then ''Not specified''
          else
            (case (case sch of JStr text \<Rightarrow> parse text | _ \<Rightarrow> Some sch) of
               None \<Rightarrow> ''Not specified''
             | Some scheduleObj \<Rightarrow>
                 if \<not> truthy scheduleObj then ''Not specified''
                 else
                   (case getProp scheduleObj ''days'' of
                      Some (JArr ds) \<Rightarrow> joinValues '', '' ds
                    | _ \<Rightarrow> ''Not specified'')))"

text \<open>\<open>getScheduleObject\<close>: the result \<open>null\<close> is \<open>JNull\<close>.\<close>

definition getScheduleObject :: "(string \<Rightarrow> json option) \<Rightarrow> json option \<Rightarrow> json" where
  "getScheduleObject parse schedule' =
     (case schedule' of
        None \<Rightarrow> JNull
      | Some sch \<Rightarrow>
          if \<not> truthy sch then JNull
          else
            (case sch of
               JStr text \<Rightarrow> (case parse text of None \<Rightarrow> JNull | Some v \<Rightarrow> v)
             | _ \<Rightarrow> sch))"

text \<open>
  The structured form of a schedule that the editor wrote, as the backend returns it.
  JSON has no \<open>NaN\<close>: serialization writes \<open>null\<close> for it.
\<close>

definition slotObject :: "TimeSlot \<Rightarrow> json" where
  "slotObject slot =
     JObj [(''id'', JStr (slot_id slot)),
           (''startTime'', JStr (startTime slot)),
           (''endTime'', JStr (endTime slot)),
           (''durationMinutes'', (case durationMinutes slot of Num n \<Rightarrow> JNum n | NaN \<Rightarrow> JNull))]"

definition scheduleObject :: "Schedule \<Rightarrow> json" where
  "scheduleObject s =
     JObj [(''days'', JArr (map JStr (days s))),
           (''timeSlots'', JArr (map slotObject (timeSlots s)))]"

section \<open>The vocabulary of the specification\<close>

text \<open>
  A time of the form HH:MM, and the hour and minute it names, read off the digits
  directly (while \<open>calculateDuration\<close> goes through \<open>split\<close> and \<open>Number\<close>).
\<close>

definition isHHMM :: "string \<Rightarrow> bool" where
  "isHHMM s =
     (case s of
        [h1, h2, c, m1, m2] \<Rightarrow> isDigit h1 \<and> isDigit h2 \<and> c = CHR '':'' \<and> isDigit m1 \<and> isDigit m2
      | _ \<Rightarrow> False)"

definition hourOf :: "string \<Rightarrow> int" where
  "hourOf s = 10 * digitVal (s ! 0) + digitVal (s ! 1)"

definition minuteOf :: "string \<Rightarrow> int" where
  "minuteOf s = 10 * digitVal (s ! 3) + digitVal (s ! 4)"

text \<open>The other time field of a slot, seen from the one being edited.\<close>

definition otherTime :: "timeField \<Rightarrow> TimeSlot \<Rightarrow> string" where
  "otherTime field slot =
     (case field of StartTimeField \<Rightarrow> endTime slot | EndTimeField \<Rightarrow> startTime slot)"

text \<open>
  The actions that are no edit of slot \<open>i\<close>: every action but a time edit of slot \<open>i\<close>
  whose other time is set, a direct edit of the duration of slot \<open>i\<close>, and the removal
  of slot \<open>i\<close> or of a slot before it (which moves slot \<open>i\<close>). A sequence of actions is
  quiet for slot \<open>i\<close> when each action is of that kind in the state it meets, and applies.
\<close>

fun leavesSlot :: "nat \<Rightarrow> action \<Rightarrow> Schedule \<Rightarrow> bool" where
  "leavesSlot i (ToggleDay checked day) s = True"
| "leavesSlot i (AddTimeSlot fresh) s = True"
| "leavesSlot i (TimeChange j field value) s = (j \<noteq> i \<or> otherTime field (timeSlots s ! i) = [])"
| "leavesSlot i (DurationChange j value) s = (j \<noteq> i)"
| "leavesSlot i (Remove j) s = (i < j)"

fun quiet :: "nat \<Rightarrow> action list \<Rightarrow> Schedule \<Rightarrow> bool" where
  "quiet i [] s = True"
| "quiet i (a # as) s =
     (leavesSlot i a s \<and> (case step a s of None \<Rightarrow> False | Some s' \<Rightarrow> quiet i as s'))"

section \<open>Properties of the attendance modal\<close>

lemma foldl_upd_map_of:
  "foldl (\<lambda>initial att. initial(att_studentId att \<mapsto> att_status att)) m atts
     = m ++ map_of (rev (map (\<lambda>a. (att_studentId a, att_status a)) atts))"
  by (induction atts arbitrary: m) (auto simp: fun_eq_iff map_add_def split: option.splits)

lemma initFromAttendances_map_of:
  "initFromAttendances atts = map_of (rev (map (\<lambda>a. (att_studentId a, att_status a)) atts))"
  by (simp add: initFromAttendances_def foldl_upd_map_of)

lemma initFromAttendances_unset:
  "s \<notin> att_studentId ` set atts \<Longrightarrow> initFromAttendances atts s = None"
  by (force simp: initFromAttendances_map_of map_of_eq_None_iff)

lemma initFromAttendances_snoc:
  "initFromAttendances (atts @ [a]) = (initFromAttendances atts)(att_studentId a \<mapsto> att_status a)"
  by (simp add: initFromAttendances_def)

text \<open>When a student has several records, the last one decides.\<close>

lemma initFromAttendances_last:
  "s \<in> att_studentId ` set atts \<Longrightarrow>
     initFromAttendances atts s = Some (att_status (last (filter (\<lambda>a. att_studentId a = s) atts)))"
proof (induction atts rule: rev_induct)
  case Nil
  then show ?case by simp
next
  case (snoc a atts)
  show ?case
  proof (cases "att_studentId a = s")
    case True
    then show ?thesis by (simp add: initFromAttendances_snoc)
  next
    case False
    with snoc.prems have "s \<in> att_studentId ` set atts" by auto
    with snoc.IH False show ?thesis by (simp add: initFromAttendances_snoc)
  qed
qed

lemma foldl_absent:
  "foldl (\<lambda>initial enrollment.
              if initial (enr_studentId enrollment) = None
              then initial(enr_studentId enrollment \<mapsto> ABSENT) else initial) m enrs s
   = (case m s of Some st \<Rightarrow> Some st
      | None \<Rightarrow> if s \<in> enr_studentId ` set enrs then Some ABSENT else None)"
  by (induction enrs arbitrary: m) (auto split: option.splits)

lemma initAllAbsent_apply:
  "initAllAbsent enrs s = (if s \<in> enr_studentId ` set enrs then Some ABSENT else None)"
  by (simp add: initAllAbsent_def foldl_absent)

text \<open>
  C1, as the code has it. The effect does not merge the two queries. When the attendance
  query has answered with at least one record, the map holds exactly the recorded
  students, each with the status of the last record for that student, and an enrolled
  student without a record stays unset. Only when the attendance query has no answer and
  the roster has one is every enrolled student set to ABSENT.
\<close>

theorem initStudentAttendances_branches:
  assumes "atts \<noteq> []"
  shows "(\<forall>s \<in> att_studentId ` set atts.
            initStudentAttendances (Some atts) enrollmentsData prev s
              = Some (att_status (last (filter (\<lambda>a. att_studentId a = s) atts))))
       \<and> (\<forall>s. s \<notin> att_studentId ` set atts \<longrightarrow>
            initStudentAttendances (Some atts) enrollmentsData prev s = None)
       \<and> (\<forall>s. initStudentAttendances None (Some enrs) prev s
              = (if s \<in> enr_studentId ` set enrs then Some ABSENT else None))"
  by (simp add: initStudentAttendances_def initFromAttendances_last initFromAttendances_unset
        initAllAbsent_apply)

theorem initStudentAttendances_branches_witness:
  "[\<lparr>att_studentId = 1, att_status = PRESENT\<rparr>] \<noteq> []
   \<and> initStudentAttendances (Some [\<lparr>att_studentId = 1, att_status = PRESENT\<rparr>])
        (Some [\<lparr>enr_id = 10, enr_studentId = 1\<rparr>, \<lparr>enr_id = 11, enr_studentId = 2\<rparr>])
        Map.empty 1 = Some PRESENT
   \<and> initStudentAttendances (Some [\<lparr>att_studentId = 1, att_status = PRESENT\<rparr>])
        (Some [\<lparr>enr_id = 10, enr_studentId = 1\<rparr>, \<lparr>enr_id = 11, enr_studentId = 2\<rparr>])
        Map.empty 2 = None
   \<and> initStudentAttendances None
        (Some [\<lparr>enr_id = 10, enr_studentId = 1\<rparr>, \<lparr>enr_id = 11, enr_studentId = 2\<rparr>])
        Map.empty 2 = Some ABSENT"
  using initStudentAttendances_branches
          [of "[\<lparr>att_studentId = 1, att_status = PRESENT\<rparr>]"
              "Some [\<lparr>enr_id = 10, enr_studentId = 1\<rparr>, \<lparr>enr_id = 11, enr_studentId = 2\<rparr>]"
              Map.empty
              "[\<lparr>enr_id = 10, enr_studentId = 1\<rparr>, \<lparr>enr_id = 11, enr_studentId = 2\<rparr>]"]
  by simp

text \<open>
  C1 as stated fails on its own example: with roster \<open>[1, 2]\<close> and the one record
  \<open>{studentId: 1, status: PRESENT}\<close> the map is not \<open>{1: PRESENT, 2: ABSENT}\<close>;
  student 2 is unset.
\<close>

theorem reconcile_partial_records_counterexample:
  "initStudentAttendances (Some [\<lparr>att_studentId = 1, att_status = PRESENT\<rparr>])
        (Some [\<lparr>enr_id = 10, enr_studentId = 1\<rparr>, \<lparr>enr_id = 11, enr_studentId = 2\<rparr>])
        Map.empty
     \<noteq> [1 \<mapsto> PRESENT, 2 \<mapsto> ABSENT]
   \<and> initStudentAttendances (Some [\<lparr>att_studentId = 1, att_status = PRESENT\<rparr>])
        (Some [\<lparr>enr_id = 10, enr_studentId = 1\<rparr>, \<lparr>enr_id = 11, enr_studentId = 2\<rparr>])
        Map.empty 2 = None"
proof -
  let ?m = "initStudentAttendances (Some [\<lparr>att_studentId = 1, att_status = PRESENT\<rparr>])
        (Some [\<lparr>enr_id = 10, enr_studentId = 1\<rparr>, \<lparr>enr_id = 11, enr_studentId = 2\<rparr>])
        Map.empty"
  have unset: "?m 2 = None"
    by (simp add: initStudentAttendances_def initFromAttendances_def)
  have "[1 \<mapsto> PRESENT, 2 \<mapsto> ABSENT] (2::int) = Some ABSENT" by simp
  with unset have "?m \<noteq> [1 \<mapsto> PRESENT, 2 \<mapsto> ABSENT]" by (metis option.distinct(1))
  with unset show ?thesis by simp
qed

text \<open>
  C10: when the attendance query answers with an empty list, the map becomes the empty
  map, whatever the roster is: the branch that sets enrolled students to ABSENT is not
  taken.
\<close>

theorem empty_record_list_gives_empty_map:
  "initStudentAttendances (Some []) enrollmentsData prev = Map.empty"
  by (simp add: initStudentAttendances_def initFromAttendances_def)

text \<open>Every button of a row sends \<open>isManual\<close> exactly with MANUAL_PRESENT.\<close>

lemma onClick_isManual:
  "req_isManual (snd (onClick b studentId prev))
     = (req_status (snd (onClick b studentId prev)) = MANUAL_PRESENT)"
  by (cases b) (simp_all add: handleAttendanceChange_def)

text \<open>
  C2 fails on the bulk path: after the Manual button was pressed for student 1, Save All
  sends MANUAL_PRESENT for that student with \<open>isManual = false\<close>.
\<close>

theorem handleBulkSave_manual_present_not_flagged:
  "handleBulkSave (Some [\<lparr>enr_id = 10, enr_studentId = 1\<rparr>])
     (fst (onClick ManualButton 1 Map.empty))
   = [\<lparr>req_studentId = 1, req_status = MANUAL_PRESENT, req_isManual = False\<rparr>]"
  by (simp add: handleBulkSave_def handleAttendanceChange_def)

lemma handleBulkSave_count:
  "distinct (map enr_studentId enrs) \<Longrightarrow> s \<in> enr_studentId ` set enrs \<Longrightarrow>
     length (filter (\<lambda>c. req_studentId c = s) (handleBulkSave (Some enrs) m)) = 1"
proof (induction enrs)
  case Nil
  then show ?case by simp
next
  case (Cons e enrs)
  show ?case
  proof (cases "enr_studentId e = s")
    case True
    with Cons.prems have "s \<notin> enr_studentId ` set enrs" by auto
    then have "filter (\<lambda>c. req_studentId c = s) (handleBulkSave (Some enrs) m) = []"
      by (auto simp: handleBulkSave_def filter_empty_conv)
    with True show ?thesis by (simp add: handleBulkSave_def)
  next
    case False
    with Cons show ?thesis by (auto simp: handleBulkSave_def)
  qed
qed

text \<open>
  C9: Save All issues one call for each entry of the roster, in the order of the roster,
  with the status stored for that student or ABSENT when none is stored; when the roster
  names every student once, every enrolled student gets exactly one call; and no call
  goes to a student outside the roster. The calls depend on the roster and the current map
  only, so a student whose status was never changed is sent again.
\<close>

theorem handleBulkSave_coverage:
  "length (handleBulkSave (Some enrs) m) = length enrs
   \<and> (\<forall>i < length enrs.
         req_studentId (handleBulkSave (Some enrs) m ! i) = enr_studentId (enrs ! i)
       \<and> req_status (handleBulkSave (Some enrs) m ! i)
           = (case m (enr_studentId (enrs ! i)) of Some status \<Rightarrow> status | None \<Rightarrow> ABSENT))
   \<and> (distinct (map enr_studentId enrs) \<longrightarrow>
        (\<forall>s \<in> enr_studentId ` set enrs.
           length (filter (\<lambda>c. req_studentId c = s) (handleBulkSave (Some enrs) m)) = 1))
   \<and> (\<forall>c \<in> set (handleBulkSave (Some enrs) m). req_studentId c \<in> enr_studentId ` set enrs)"
proof -
  have "\<forall>c \<in> set (handleBulkSave (Some enrs) m). req_studentId c \<in> enr_studentId ` set enrs"
    by (auto simp: handleBulkSave_def)
  moreover have "\<forall>i < length enrs.
         req_studentId (handleBulkSave (Some enrs) m ! i) = enr_studentId (enrs ! i)
       \<and> req_status (handleBulkSave (Some enrs) m ! i)
           = (case m (enr_studentId (enrs ! i)) of Some status \<Rightarrow> status | None \<Rightarrow> ABSENT)"
    by (simp add: handleBulkSave_def)
  moreover have "length (handleBulkSave (Some enrs) m) = length enrs"
    by (simp add: handleBulkSave_def)
  ultimately show ?thesis
    using handleBulkSave_count by blast
qed

theorem handleBulkSave_coverage_witness:
  "handleBulkSave (Some [\<lparr>enr_id = 10, enr_studentId = 1\<rparr>, \<lparr>enr_id = 11, enr_studentId = 2\<rparr>])
      [1 \<mapsto> PRESENT]
    = [\<lparr>req_studentId = 1, req_status = PRESENT, req_isManual = False\<rparr>,
       \<lparr>req_studentId = 2, req_status = ABSENT, req_isManual = False\<rparr>]
   \<and> distinct (map enr_studentId [\<lparr>enr_id = 10, enr_studentId = 1\<rparr>, \<lparr>enr_id = 11, enr_studentId = 2\<rparr>])
   \<and> length (filter (\<lambda>c. req_studentId c = 2)
        (handleBulkSave (Some [\<lparr>enr_id = 10, enr_studentId = 1\<rparr>, \<lparr>enr_id = 11, enr_studentId = 2\<rparr>])
           [1 \<mapsto> PRESENT])) = 1"
  using handleBulkSave_coverage
          [of "[\<lparr>enr_id = 10, enr_studentId = 1\<rparr>, \<lparr>enr_id = 11, enr_studentId = 2\<rparr>]"
              "[1 \<mapsto> PRESENT]"]
  by (simp add: handleBulkSave_def)

section \<open>Properties of the schedule editor\<close>

lemma isHHMM_E:
  assumes "isHHMM s"
  obtains h1 h2 m1 m2 where "s = [h1, h2, CHR '':'', m1, m2]"
    "isDigit h1" "isDigit h2" "isDigit m1" "isDigit m2"
  using assms unfolding isHHMM_def
  by (auto split: list.splits)

lemma isDigit_not_colon: "isDigit c \<Longrightarrow> c \<noteq> CHR '':''"
  by (auto simp: isDigit_def)

lemma split_HHMM:
  assumes "isDigit h1" "isDigit h2" "isDigit m1" "isDigit m2"
  shows "split CHR '':'' [h1, h2, CHR '':'', m1, m2] = [[h1, h2], [m1, m2]]"
  using assms by (simp add: isDigit_not_colon)

lemma Number_two_digits:
  "isDigit a \<Longrightarrow> isDigit b \<Longrightarrow> Number [a, b] = Num (10 * digitVal a + digitVal b)"
  by (simp add: Number_def)

lemma calculateDuration_HHMM_aux:
  assumes "isHHMM start" "isHHMM end'"
  shows "calculateDuration start end' =
           Num (max 0 ((hourOf end' * 60 + minuteOf end') - (hourOf start * 60 + minuteOf start)))"
proof -
  from assms(1) obtain a b c d where s: "start = [a, b, CHR '':'', c, d]"
    and ds: "isDigit a" "isDigit b" "isDigit c" "isDigit d" by (rule isHHMM_E)
  from assms(2) obtain e f g h where e: "end' = [e, f, CHR '':'', g, h]"
    and de: "isDigit e" "isDigit f" "isDigit g" "isDigit h" by (rule isHHMM_E)
  show ?thesis
    unfolding s e calculateDuration_def
    by (simp add: split_HHMM ds de Number_two_digits element_def hourOf_def minuteOf_def Let_def
             del: split.simps)
qed

lemma isHHMM_nonempty: "isHHMM s \<Longrightarrow> s \<noteq> []"
  by (auto simp: isHHMM_def)

lemma enumerate_remove:
  "n \<le> j \<Longrightarrow> map snd (filter (\<lambda>(k, _). k \<noteq> j) (enumerate n xs))
     = take (j - n) xs @ drop (Suc (j - n)) xs"
proof (induction xs arbitrary: n)
  case Nil
  then show ?case by simp
next
  case (Cons x xs)
  show ?case
  proof (cases "n = j")
    case True
    have "filter (\<lambda>(k, _). k \<noteq> j) (enumerate (Suc j) xs) = enumerate (Suc j) xs"
      by (rule filter_True) (auto simp: in_set_enumerate_eq)
    with True show ?thesis by simp
  next
    case False
    with Cons.prems have le: "Suc n \<le> j" by simp
    then have eq: "j - n = Suc (j - Suc n)" by simp
    from Cons.IH[OF le] False show ?thesis
      by (simp add: eq)
  qed
qed

lemma handleRemove_take_drop: "handleRemove j slots = take j slots @ drop (Suc j) slots"
  using enumerate_remove[of 0 j slots] by (simp add: handleRemove_def)

lemma handleRemove_later:
  "i < j \<Longrightarrow> i < length slots \<Longrightarrow>
     i < length (handleRemove j slots) \<and> handleRemove j slots ! i = slots ! i"
  by (auto simp: handleRemove_take_drop nth_append min_def)

lemma changeTime_other_empty:
  "otherTime field slot = [] \<Longrightarrow>
     durationMinutes (changeTime field value slot) = durationMinutes slot"
  by (cases field) (simp_all add: changeTime_def otherTime_def)

lemma step_leaves:
  assumes "i < length (timeSlots s)" "leavesSlot i a s" "step a s = Some s'"
  shows "i < length (timeSlots s')
       \<and> durationMinutes (timeSlots s' ! i) = durationMinutes (timeSlots s ! i)"
proof (cases a)
  case (ToggleDay c d)
  with assms show ?thesis by auto
next
  case (AddTimeSlot fresh)
  with assms show ?thesis by (auto simp: addTimeSlot_def nth_append)
next
  case (TimeChange j f t)
  with assms show ?thesis
    by (cases "j = i")
       (auto simp: handleTimeChange_def changeTime_other_empty split: if_splits)
next
  case (DurationChange j v)
  with assms show ?thesis
    by (auto simp: handleDurationChange_def split: if_splits)
next
  case (Remove j)
  with assms show ?thesis
    using handleRemove_later[of i j "timeSlots s"] by auto
qed

lemma run_quiet:
  "i < length (timeSlots s) \<Longrightarrow> quiet i as s \<Longrightarrow>
     \<exists>s'. run as s = Some s' \<and> i < length (timeSlots s')
        \<and> durationMinutes (timeSlots s' ! i) = durationMinutes (timeSlots s ! i)"
proof (induction as arbitrary: s)
  case Nil
  then show ?case by simp
next
  case (Cons a as)
  from Cons.prems(2) obtain s1 where s1: "step a s = Some s1" and l: "leavesSlot i a s"
    and q: "quiet i as s1"
    by (auto split: option.splits)
  from step_leaves[OF Cons.prems(1) l s1]
  have len: "i < length (timeSlots s1)"
    and d: "durationMinutes (timeSlots s1 ! i) = durationMinutes (timeSlots s ! i)" by auto
  from Cons.IH[OF len q] s1 d show ?case by auto
qed

lemma changeTime_discards:
  "otherTime field slot \<noteq> [] \<Longrightarrow>
     changeTime field value (slot\<lparr>durationMinutes := d\<rparr>) = changeTime field value slot"
  by (cases field) (simp_all add: changeTime_def otherTime_def)

lemma changeTime_recomputes:
  "otherTime field slot \<noteq> [] \<Longrightarrow>
     durationMinutes (changeTime field value slot)
       = calculateDuration (startTime (changeTime field value slot))
                           (endTime (changeTime field value slot))"
  by (cases field) (simp_all add: changeTime_def otherTime_def)

text \<open>
  C3: for a start and an end time of the form HH:MM, the computed duration is
  \<open>max(0, (endHour * 60 + endMinute) - (startHour * 60 + startMinute))\<close>, from
  \<open>calculateDuration\<close> itself and as \<open>handleTimeChange\<close> stores it when either time is
  edited while the other is set. So an end after the start gives the positive difference
  (09:00 to 11:30 gives 150) and an end at or before the start gives 0 (14:00 to 13:00).
\<close>

theorem duration_derivation:
  assumes "isHHMM start" "isHHMM end'"
  shows "calculateDuration start end'
           = Num (max 0 ((hourOf end' * 60 + minuteOf end') - (hourOf start * 60 + minuteOf start)))
       \<and> durationMinutes (changeTime StartTimeField start (slot\<lparr>endTime := end'\<rparr>))
           = Num (max 0 ((hourOf end' * 60 + minuteOf end') - (hourOf start * 60 + minuteOf start)))
       \<and> durationMinutes (changeTime EndTimeField end' (slot\<lparr>startTime := start\<rparr>))
           = Num (max 0 ((hourOf end' * 60 + minuteOf end') - (hourOf start * 60 + minuteOf start)))"
proof -
  note d = calculateDuration_HHMM_aux[OF assms]
  from assms have ne: "start \<noteq> []" "end' \<noteq> []" by (simp_all add: isHHMM_nonempty)
  have "durationMinutes (changeTime StartTimeField start (slot\<lparr>endTime := end'\<rparr>))
          = calculateDuration start end'"
    using ne by (simp add: changeTime_def)
  moreover have "durationMinutes (changeTime EndTimeField end' (slot\<lparr>startTime := start\<rparr>))
          = calculateDuration start end'"
    using ne by (simp add: changeTime_def)
  ultimately show ?thesis using d by simp
qed

theorem duration_derivation_witness:
  "isHHMM ''09:00'' \<and> isHHMM ''11:30'' \<and> calculateDuration ''09:00'' ''11:30'' = Num 150
   \<and> isHHMM ''14:00'' \<and> isHHMM ''13:00'' \<and> calculateDuration ''14:00'' ''13:00'' = Num 0"
proof -
  have h: "isHHMM ''09:00''" "isHHMM ''11:30''" "isHHMM ''14:00''" "isHHMM ''13:00''"
    by (simp_all add: isHHMM_def isDigit_def)
  from duration_derivation[OF h(1) h(2)] duration_derivation[OF h(3) h(4)] h
  show ?thesis by (simp add: hourOf_def minuteOf_def digitVal_def)
qed

text \<open>
  C4: for a slot \<open>i\<close> of the list, setting the duration to \<open>v\<close> stores \<open>max(0, v)\<close>
  and changes nothing else, so nothing is recomputed; the stored value is still there
  after every sequence of actions that is quiet for the slot (a time edit of the slot with
  its other time empty is quiet); and a time edit of the slot with its other time set gives
  the same list as if the manual value had never been stored, the duration being the one
  computed from the new times.
\<close>

theorem manual_duration_override:
  assumes "i < length slots"
  shows "handleDurationChange i (Num v) slots
           = Some (slots[i := (slots ! i)\<lparr>durationMinutes := Num (max 0 v)\<rparr>])
       \<and> (\<forall>as ds.
            quiet i as \<lparr>days = ds,
                         timeSlots = slots[i := (slots ! i)\<lparr>durationMinutes := Num (max 0 v)\<rparr>]\<rparr>
            \<longrightarrow> (\<exists>s'. run as \<lparr>days = ds,
                               timeSlots = slots[i := (slots ! i)\<lparr>durationMinutes := Num (max 0 v)\<rparr>]\<rparr>
                          = Some s'
                     \<and> i < length (timeSlots s')
                     \<and> durationMinutes (timeSlots s' ! i) = Num (max 0 v)))
       \<and> (\<forall>field t.
            otherTime field (slots ! i) \<noteq> []
            \<longrightarrow> handleTimeChange i field t (slots[i := (slots ! i)\<lparr>durationMinutes := Num (max 0 v)\<rparr>])
                  = handleTimeChange i field t slots
              \<and> (\<exists>slots'. handleTimeChange i field t slots = Some slots'
                     \<and> durationMinutes (slots' ! i)
                         = calculateDuration (startTime (slots' ! i)) (endTime (slots' ! i))))"
proof -
  let ?manual = "slots[i := (slots ! i)\<lparr>durationMinutes := Num (max 0 v)\<rparr>]"
  have store: "handleDurationChange i (Num v) slots = Some ?manual"
    using assms by (simp add: handleDurationChange_def)
  have keep: "\<exists>s'. run as \<lparr>days = ds, timeSlots = ?manual\<rparr> = Some s'
                 \<and> i < length (timeSlots s')
                 \<and> durationMinutes (timeSlots s' ! i) = Num (max 0 v)"
    if "quiet i as \<lparr>days = ds, timeSlots = ?manual\<rparr>" for as ds
    using run_quiet[of i "\<lparr>days = ds, timeSlots = ?manual\<rparr>" as] that assms by simp
  have discard: "handleTimeChange i field t ?manual = handleTimeChange i field t slots
       \<and> (\<exists>slots'. handleTimeChange i field t slots = Some slots'
              \<and> durationMinutes (slots' ! i)
                  = calculateDuration (startTime (slots' ! i)) (endTime (slots' ! i)))"
    if "otherTime field (slots ! i) \<noteq> []" for field t
    using assms that changeTime_recomputes[OF that, of t]
    by (simp add: handleTimeChange_def changeTime_discards)
  from store keep discard show ?thesis by blast
qed

theorem manual_duration_override_witness:
  "(0::nat) < length [\<lparr>slot_id = ''a'', startTime = ''09:00'', endTime = ''11:30'',
                       durationMinutes = Num 150\<rparr>]
   \<and> handleDurationChange 0 (Num 45)
        [\<lparr>slot_id = ''a'', startTime = ''09:00'', endTime = ''11:30'', durationMinutes = Num 150\<rparr>]
       = Some [\<lparr>slot_id = ''a'', startTime = ''09:00'', endTime = ''11:30'',
                durationMinutes = Num 45\<rparr>]
   \<and> quiet 0 [ToggleDay True ''Monday'', AddTimeSlot ''b'', TimeChange 1 StartTimeField ''10:00'']
        \<lparr>days = [],
         timeSlots = [\<lparr>slot_id = ''a'', startTime = ''09:00'', endTime = ''11:30'',
                       durationMinutes = Num 45\<rparr>]\<rparr>
   \<and> (\<exists>s'. run [ToggleDay True ''Monday'', AddTimeSlot ''b'', TimeChange 1 StartTimeField ''10:00'']
               \<lparr>days = [],
                timeSlots = [\<lparr>slot_id = ''a'', startTime = ''09:00'', endTime = ''11:30'',
                              durationMinutes = Num 45\<rparr>]\<rparr> = Some s'
           \<and> durationMinutes (timeSlots s' ! 0) = Num 45)
   \<and> otherTime EndTimeField
        \<lparr>slot_id = ''a'', startTime = ''09:00'', endTime = ''11:30'', durationMinutes = Num 150\<rparr>
       \<noteq> []
   \<and> map durationMinutes
        (the (handleTimeChange 0 EndTimeField ''12:00''
           [\<lparr>slot_id = ''a'', startTime = ''09:00'', endTime = ''11:30'',
             durationMinutes = Num 45\<rparr>]))
       = [Num 180]"
proof -
  let ?slots = "[\<lparr>slot_id = ''a'', startTime = ''09:00'', endTime = ''11:30'',
                  durationMinutes = Num 150\<rparr>]"
  let ?as = "[ToggleDay True ''Monday'', AddTimeSlot ''b'', TimeChange 1 StartTimeField ''10:00'']"
  have len: "(0::nat) < length ?slots" by simp
  have q: "quiet 0 ?as
        \<lparr>days = [],
         timeSlots = [\<lparr>slot_id = ''a'', startTime = ''09:00'', endTime = ''11:30'',
                       durationMinutes = Num 45\<rparr>]\<rparr>"
    by (simp add: addTimeSlot_def handleTimeChange_def toggleDay_def)
  have o: "otherTime EndTimeField (?slots ! 0) \<noteq> []" by (simp add: otherTime_def)
  have calc: "calculateDuration ''09:00'' ''12:00'' = Num 180"
    by (simp add: calculateDuration_def Number_def element_def isDigit_def digitVal_def)
  from manual_duration_override[OF len, of 45] q o calc
  show ?thesis
    by (simp add: handleTimeChange_def changeTime_def addTimeSlot_def toggleDay_def)
qed

lemma form_validate_no_errors:
  "hasErrors (form_validate values) \<longleftrightarrow>
     (title values = [] \<or> software values = [] \<or> mode values = [] \<or> startDate values = []
      \<or> endDate values = [] \<or> maxCapacity values < 1 \<or> timeSlots (schedule values) = [])"
  by (simp add: hasErrors_def form_validate_def validate_title_def
        validate_software_def validate_mode_def validate_startDate_def validate_endDate_def
        validate_maxCapacity_def validate_timeSlots_def)

text \<open>
  C7, as the code has it, for the batch creation wizard. At the schedule step
  \<open>handleNext\<close> returns early whenever no
  day is chosen, whatever the slots are, and whenever there is no slot, whatever the days
  are. It goes on when both are non-empty and the rules of the form pass as well (title,
  software, mode, start date and end date set, capacity at least 1). What the slots
  contain is not looked at: replacing a non-empty slot list by any other non-empty one
  does not change the outcome.
\<close>

theorem handleNext_schedule_gate:
  "(days (schedule values) = [] \<longrightarrow> \<not> handleNext_validates 1 values)
   \<and> (timeSlots (schedule values) = [] \<longrightarrow> \<not> handleNext_validates 1 values)
   \<and> (days (schedule values) \<noteq> [] \<and> timeSlots (schedule values) \<noteq> []
        \<and> title values \<noteq> [] \<and> software values \<noteq> [] \<and> mode values \<noteq> []
        \<and> startDate values \<noteq> [] \<and> endDate values \<noteq> [] \<and> 1 \<le> maxCapacity values
        \<longrightarrow> handleNext_validates 1 values)
   \<and> (slots \<noteq> [] \<and> timeSlots (schedule values) \<noteq> []
        \<longrightarrow> handleNext_validates 1 (values\<lparr>schedule := (schedule values)\<lparr>timeSlots := slots\<rparr>\<rparr>)
              = handleNext_validates 1 values)"
  by (auto simp: handleNext_validates_def form_validate_no_errors)

theorem handleNext_schedule_gate_witness:
  "\<not> handleNext_validates 1
       \<lparr>title = ''Batch 1'', software = ''Figma'', mode = ''online'', startDate = ''2025-01-06'',
        endDate = ''2025-03-28'', maxCapacity = 20,
        schedule = \<lparr>days = [],
                     timeSlots = [\<lparr>slot_id = ''a'', startTime = [], endTime = [],
                                   durationMinutes = Num 0\<rparr>]\<rparr>\<rparr>
   \<and> \<not> handleNext_validates 1
       \<lparr>title = ''Batch 1'', software = ''Figma'', mode = ''online'', startDate = ''2025-01-06'',
        endDate = ''2025-03-28'', maxCapacity = 20,
        schedule = \<lparr>days = [''Monday''], timeSlots = []\<rparr>\<rparr>
   \<and> handleNext_validates 1
       \<lparr>title = ''Batch 1'', software = ''Figma'', mode = ''online'', startDate = ''2025-01-06'',
        endDate = ''2025-03-28'', maxCapacity = 20,
        schedule = \<lparr>days = [''Monday''],
                     timeSlots = [\<lparr>slot_id = ''a'', startTime = [], endTime = [],
                                   durationMinutes = Num 0\<rparr>]\<rparr>\<rparr>"
  using handleNext_schedule_gate
          [of "\<lparr>title = ''Batch 1'', software = ''Figma'', mode = ''online'',
                startDate = ''2025-01-06'', endDate = ''2025-03-28'', maxCapacity = 20,
                schedule = \<lparr>days = [],
                     timeSlots = [\<lparr>slot_id = ''a'', startTime = [], endTime = [],
                                   durationMinutes = Num 0\<rparr>]\<rparr>\<rparr>"]
        handleNext_schedule_gate
          [of "\<lparr>title = ''Batch 1'', software = ''Figma'', mode = ''online'',
                startDate = ''2025-01-06'', endDate = ''2025-03-28'', maxCapacity = 20,
                schedule = \<lparr>days = [''Monday''], timeSlots = []\<rparr>\<rparr>"]
        handleNext_schedule_gate
          [of "\<lparr>title = ''Batch 1'', software = ''Figma'', mode = ''online'',
                startDate = ''2025-01-06'', endDate = ''2025-03-28'', maxCapacity = 20,
                schedule = \<lparr>days = [''Monday''],
                     timeSlots = [\<lparr>slot_id = ''a'', startTime = [], endTime = [],
                                   durationMinutes = Num 0\<rparr>]\<rparr>\<rparr>"]
  by simp

text \<open>
  C7 as stated fails in the creation wizard: with both dates, a day and a complete slot
  the Next button is enabled, but with a capacity of 0 \<open>form.validate()\<close> reports an
  error and \<open>handleNext\<close> returns early.
\<close>

theorem schedule_gate_capacity_counterexample:
  "\<not> nextDisabled False False 1
       \<lparr>title = ''Batch 1'', software = ''Figma'', mode = ''online'', startDate = ''2025-01-06'',
        endDate = ''2025-03-28'', maxCapacity = 0,
        schedule = \<lparr>days = [''Monday''],
                     timeSlots = [\<lparr>slot_id = ''a'', startTime = ''09:00'', endTime = ''11:30'',
                                   durationMinutes = Num 150\<rparr>]\<rparr>\<rparr>
   \<and> days (schedule
       \<lparr>title = ''Batch 1'', software = ''Figma'', mode = ''online'', startDate = ''2025-01-06'',
        endDate = ''2025-03-28'', maxCapacity = 0,
        schedule = \<lparr>days = [''Monday''],
                     timeSlots = [\<lparr>slot_id = ''a'', startTime = ''09:00'', endTime = ''11:30'',
                                   durationMinutes = Num 150\<rparr>]\<rparr>\<rparr>) \<noteq> []
   \<and> timeSlots (schedule
       \<lparr>title = ''Batch 1'', software = ''Figma'', mode = ''online'', startDate = ''2025-01-06'',
        endDate = ''2025-03-28'', maxCapacity = 0,
        schedule = \<lparr>days = [''Monday''],
                     timeSlots = [\<lparr>slot_id = ''a'', startTime = ''09:00'', endTime = ''11:30'',
                                   durationMinutes = Num 150\<rparr>]\<rparr>\<rparr>) \<noteq> []
   \<and> \<not> handleNext_validates 1
       \<lparr>title = ''Batch 1'', software = ''Figma'', mode = ''online'', startDate = ''2025-01-06'',
        endDate = ''2025-03-28'', maxCapacity = 0,
        schedule = \<lparr>days = [''Monday''],
                     timeSlots = [\<lparr>slot_id = ''a'', startTime = ''09:00'', endTime = ''11:30'',
                                   durationMinutes = Num 150\<rparr>]\<rparr>\<rparr>"
  by (simp add: handleNext_validates_def form_validate_no_errors nextDisabled_def)

section \<open>Properties of the report page\<close>

text \<open>
  C5: without filters, the student attendance report fails with "Student ID is required"
  and the batch attendance report with "Batch ID is required"; a report type that is none
  of the nine identifiers fails with "Invalid report type", whatever the filters; and the
  pending payments report needs no filter and asks for \<open>/reports/pending-payments\<close>.
\<close>

theorem fetchReport_validation:
  "fetchReport_endpoint ''student-attendance'' Map.empty = Inl ''Student ID is required''
   \<and> fetchReport_endpoint ''batch-attendance'' Map.empty = Inl ''Batch ID is required''
   \<and> (\<forall>reportType params.
         reportType \<notin> set reportTypes
         \<longrightarrow> fetchReport_endpoint reportType params = Inl ''Invalid report type'')
   \<and> fetchReport_endpoint ''pending-payments'' Map.empty = Inr ''/reports/pending-payments''"
proof -
  have a: "fetchReport_endpoint ''student-attendance'' Map.empty = Inl ''Student ID is required''"
    by (simp add: fetchReport_endpoint_def given_def)
  have b: "fetchReport_endpoint ''batch-attendance'' Map.empty = Inl ''Batch ID is required''"
    by (simp add: fetchReport_endpoint_def given_def)
  have c: "fetchReport_endpoint reportType params = Inl ''Invalid report type''"
    if "reportType \<notin> set reportTypes" for reportType params
    using that by (simp add: fetchReport_endpoint_def reportTypes_def)
  have d: "fetchReport_endpoint ''pending-payments'' Map.empty = Inr ''/reports/pending-payments''"
    by (simp add: fetchReport_endpoint_def)
  from a b c d show ?thesis by blast
qed

theorem fetchReport_validation_witness:
  "''weekly-summary'' \<notin> set reportTypes
   \<and> fetchReport_endpoint ''weekly-summary'' [''studentId'' \<mapsto> ''7''] = Inl ''Invalid report type''"
proof -
  have n: "''weekly-summary'' \<notin> set reportTypes" by (simp add: reportTypes_def)
  with fetchReport_validation show ?thesis by blast
qed

lemma isArray_truthy: "isArray v \<Longrightarrow> truthy' v"
  by (cases v rule: isArray.cases) (simp_all add: truthy'_def)

lemma selectTemplate_unfold:
  "selectTemplate data =
     (if has_payments_and_summary data then PendingPayments
      else if has_summary_students_and_batches data then AllAnalysis
      else if has_array ''students'' data then StudentsWithoutBatch
      else if has_array ''portfolios'' data then PortfolioStatus
      else if has_both ''student'' ''currentBatch'' data then StudentCurrentBatch
      else if has_both ''student'' ''attendances'' data then StudentAttendance
      else if has_both ''batch'' ''statistics'' data then BatchAttendance
      else if has_array ''facultyStatistics'' data then BatchesByFaculty
      else if has_array ''monthlyStatistics'' data then MonthwisePayments
      else RawJson)"
  by (simp add: selectTemplate_def templateOrder_def)

lemma summary_predicate:
  "(truthy' (getProp data ''summary'') \<and> truthy' (getProp2 data ''summary'' ''students'')
      \<and> truthy' (getProp2 data ''summary'' ''batches''))
     = has_summary_students_and_batches data"
  by (auto simp: has_summary_students_and_batches_def getProp2_def truthy'_def split: option.splits)

lemma array_predicate:
  "(truthy' (getProp data key) \<and> isArray (getProp data key)) = has_array key data"
  by (auto simp: has_array_def isArray_truthy)

lemma renderContent_selectTemplate: "renderContent data = selectTemplate data"
  unfolding renderContent_def selectTemplate_unfold summary_predicate array_predicate
  by (simp add: has_payments_and_summary_def has_both_def)

text \<open>
  C6, as the code has it. \<open>renderReportData\<close> renders nothing when the report has no
  \<open>data\<close> or a falsy one (\<open>null\<close>, \<open>0\<close>, the empty string, \<open>false\<close>). For every
  other payload the template rendered is the one of the first predicate of
  \<open>templateOrder\<close> that holds, and the raw JSON view when none holds. A payload with both
  the pending payments and the all analysis shape is shown as pending payments.
\<close>

theorem template_selection_after_guard:
  "(truthy data \<longrightarrow>
      renderContent data = selectTemplate data
    \<and> (\<forall>r. truthy r \<and> getProp r ''data'' = Some data
           \<longrightarrow> renderReportData (Some r) = Some (selectTemplate data))
    \<and> (has_payments_and_summary data \<and> has_summary_students_and_batches data
         \<longrightarrow> renderContent data = PendingPayments))
   \<and> (\<not> truthy data \<longrightarrow>
        (\<forall>r. getProp r ''data'' = Some data \<longrightarrow> renderReportData (Some r) = None))
   \<and> (\<forall>r. getProp r ''data'' = None \<longrightarrow> renderReportData (Some r) = None)
   \<and> renderReportData None = None"
  by (simp add: renderContent_selectTemplate renderReportData_def selectTemplate_unfold)

theorem template_selection_after_guard_witness:
  "truthy (JObj [(''payments'', JArr []),
                 (''summary'', JObj [(''students'', JObj []), (''batches'', JObj [])])])
   \<and> has_payments_and_summary
        (JObj [(''payments'', JArr []),
               (''summary'', JObj [(''students'', JObj []), (''batches'', JObj [])])])
   \<and> has_summary_students_and_batches
        (JObj [(''payments'', JArr []),
               (''summary'', JObj [(''students'', JObj []), (''batches'', JObj [])])])
   \<and> renderContent
        (JObj [(''payments'', JArr []),
               (''summary'', JObj [(''students'', JObj []), (''batches'', JObj [])])])
       = PendingPayments
   \<and> renderReportData
        (Some (JObj [(''data'',
           JObj [(''payments'', JArr []),
                 (''summary'', JObj [(''students'', JObj []), (''batches'', JObj [])])])]))
       = Some PendingPayments
   \<and> \<not> truthy (JNum 0)
   \<and> renderReportData (Some (JObj [(''data'', JNum 0)])) = None
   \<and> renderReportData (Some (JObj [(''status'', JStr ''success'')])) = None"
proof -
  let ?data = "JObj [(''payments'', JArr []),
                     (''summary'', JObj [(''students'', JObj []), (''batches'', JObj [])])]"
  have t: "truthy ?data" by simp
  have p: "has_payments_and_summary ?data"
    by (simp add: has_payments_and_summary_def truthy'_def)
  have q: "has_summary_students_and_batches ?data"
    by (simp add: has_summary_students_and_batches_def truthy'_def)
  have r: "truthy (JObj [(''data'', ?data)]) \<and> getProp (JObj [(''data'', ?data)]) ''data'' = Some ?data"
    by simp
  from template_selection_after_guard[of ?data] t p q r
  have a: "renderContent ?data = PendingPayments"
    and b: "renderReportData (Some (JObj [(''data'', ?data)])) = Some (selectTemplate ?data)"
    and c: "renderContent ?data = selectTemplate ?data"
    by blast+
  have f: "\<not> truthy (JNum 0)" by simp
  have g: "getProp (JObj [(''data'', JNum 0)]) ''data'' = Some (JNum 0)" by simp
  have h: "getProp (JObj [(''status'', JStr ''success'')]) ''data'' = None" by simp
  from template_selection_after_guard[of "JNum 0"] f g
  have d: "renderReportData (Some (JObj [(''data'', JNum 0)])) = None" by blast
  from template_selection_after_guard[of "JNum 0"] h
  have e: "renderReportData (Some (JObj [(''status'', JStr ''success'')])) = None" by blast
  from a b c d e t p q f show ?thesis by simp
qed

text \<open>
  C6 as stated fails for the payload \<open>null\<close>: no predicate holds, and yet the raw JSON
  view is not chosen; nothing is rendered.
\<close>

theorem falsy_payload_counterexample:
  "\<not> has_payments_and_summary JNull
   \<and> \<not> has_summary_students_and_batches JNull
   \<and> \<not> has_array ''students'' JNull
   \<and> \<not> has_array ''portfolios'' JNull
   \<and> \<not> has_both ''student'' ''currentBatch'' JNull
   \<and> \<not> has_both ''student'' ''attendances'' JNull
   \<and> \<not> has_both ''batch'' ''statistics'' JNull
   \<and> \<not> has_array ''facultyStatistics'' JNull
   \<and> \<not> has_array ''monthlyStatistics'' JNull
   \<and> selectTemplate JNull = RawJson
   \<and> renderReportData (Some (JObj [(''data'', JNull)])) = None
   \<and> renderReportData (Some (JObj [(''data'', JNull)])) \<noteq> Some RawJson"
  by (simp add: has_payments_and_summary_def has_summary_students_and_batches_def has_array_def
        has_both_def truthy'_def selectTemplate_unfold renderReportData_def)

section \<open>Properties of the schedule display\<close>

lemma formatSlot_slotObject: "\<exists>r. formatSlot (slotObject slot) = Inr r"
  by (simp add: formatSlot_def slotObject_def Let_def)

lemma formatSlots_slotObjects: "\<exists>rs. formatSlots (map slotObject slots) = Inr rs"
proof (induction slots)
  case Nil
  then show ?case by simp
next
  case (Cons slot slots)
  from formatSlot_slotObject obtain r where "formatSlot (slotObject slot) = Inr r" by blast
  moreover from Cons.IH obtain rs where "formatSlots (map slotObject slots) = Inr rs" by blast
  ultimately show ?case by simp
qed

lemma formatTimeSlots_scheduleObject: "\<exists>t. formatTimeSlots parse (Some (scheduleObject s)) = Inr t"
proof -
  from formatSlots_slotObjects obtain rs
    where "formatSlots (map slotObject (timeSlots s)) = Inr rs" by blast
  then show ?thesis
    by (simp add: formatTimeSlots_def scheduleObject_def Let_def)
qed

lemma joinValues_strings: "joinValues sep (map JStr xs) = join sep xs"
  by (simp add: joinValues_def comp_def)

lemma formatDays_scheduleObject:
  "formatDays parse (Some (scheduleObject s)) = join '', '' (days s)"
  by (simp add: formatDays_def scheduleObject_def joinValues_strings)

lemma read_string_as_object:
  assumes "str \<noteq> []" "parse str = Some (JObj kvs)"
  shows "formatTimeSlots parse (Some (JStr str)) = formatTimeSlots parse (Some (JObj kvs))"
    and "formatDays parse (Some (JStr str)) = formatDays parse (Some (JObj kvs))"
    and "getScheduleObject parse (Some (JStr str)) = getScheduleObject parse (Some (JObj kvs))"
  using assms
  by (simp_all add: formatTimeSlots_def formatDays_def getScheduleObject_def)

lemma read_invalid_string:
  assumes "parse str = None"
  shows "formatTimeSlots parse (Some (JStr str)) = Inr ''Not specified''"
    and "formatDays parse (Some (JStr str)) = ''Not specified''"
    and "getScheduleObject parse (Some (JStr str)) = JNull"
  using assms
  by (simp_all add: formatTimeSlots_def formatDays_def getScheduleObject_def)

text \<open>
  C8: let \<open>str\<close> be a text that \<open>JSON.parse\<close> decodes to the structured form of a
  schedule \<open>s\<close> (a text of JSON is not empty; the empty string is falsy and is never
  parsed). Then the three readers give the same result for the string as for the
  object itself: the same time slot text, the same day text, the same schedule object.
  On the object they give the object back, the joined days and a text (no exception). A
  string that is not valid JSON gives 'Not specified', 'Not specified' and \<open>null\<close>.
\<close>

theorem schedule_string_form_reads_alike:
  "(str \<noteq> [] \<and> parse str = Some (scheduleObject s) \<longrightarrow>
      formatTimeSlots parse (Some (JStr str)) = formatTimeSlots parse (Some (scheduleObject s))
    \<and> formatDays parse (Some (JStr str)) = formatDays parse (Some (scheduleObject s))
    \<and> getScheduleObject parse (Some (JStr str)) = getScheduleObject parse (Some (scheduleObject s))
    \<and> getScheduleObject parse (Some (scheduleObject s)) = scheduleObject s
    \<and> formatDays parse (Some (scheduleObject s)) = join '', '' (days s)
    \<and> (\<exists>t. formatTimeSlots parse (Some (scheduleObject s)) = Inr t))
   \<and> (parse str = None \<longrightarrow>
      formatTimeSlots parse (Some (JStr str)) = Inr ''Not specified''
    \<and> formatDays parse (Some (JStr str)) = ''Not specified''
    \<and> getScheduleObject parse (Some (JStr str)) = JNull)"
proof -
  have obj: "\<exists>kvs. scheduleObject s = JObj kvs" by (simp add: scheduleObject_def)
  have direct: "getScheduleObject parse (Some (scheduleObject s)) = scheduleObject s"
    by (simp add: getScheduleObject_def scheduleObject_def)
  show ?thesis
    using obj direct read_string_as_object[of str parse] read_invalid_string[of parse str]
      formatDays_scheduleObject[of parse s] formatTimeSlots_scheduleObject[of parse s]
    by auto
qed

theorem schedule_string_form_reads_alike_witness:
  "''{\"days\":[\"Monday\",\"Wednesday\"],\"timeSlots\":[{\"id\":\"a\",\"startTime\":\"09:00\",\"endTime\":\"11:30\",\"durationMinutes\":150}]}'' \<noteq> []
   \<and> formatTimeSlots
        [''{\"days\":[\"Monday\",\"Wednesday\"],\"timeSlots\":[{\"id\":\"a\",\"startTime\":\"09:00\",\"endTime\":\"11:30\",\"durationMinutes\":150}]}''
           \<mapsto> scheduleObject
                \<lparr>days = [''Monday'', ''Wednesday''],
                 timeSlots = [\<lparr>slot_id = ''a'', startTime = ''09:00'', endTime = ''11:30'',
                               durationMinutes = Num 150\<rparr>]\<rparr>]
        (Some (JStr ''{\"days\":[\"Monday\",\"Wednesday\"],\"timeSlots\":[{\"id\":\"a\",\"startTime\":\"09:00\",\"endTime\":\"11:30\",\"durationMinutes\":150}]}''))
       = Inr ''09:00 - 11:30 (2h 30m)''
   \<and> formatDays
        [''{\"days\":[\"Monday\",\"Wednesday\"],\"timeSlots\":[{\"id\":\"a\",\"startTime\":\"09:00\",\"endTime\":\"11:30\",\"durationMinutes\":150}]}''
           \<mapsto> scheduleObject
                \<lparr>days = [''Monday'', ''Wednesday''],
                 timeSlots = [\<lparr>slot_id = ''a'', startTime = ''09:00'', endTime = ''11:30'',
                               durationMinutes = Num 150\<rparr>]\<rparr>]
        (Some (JStr ''{\"days\":[\"Monday\",\"Wednesday\"],\"timeSlots\":[{\"id\":\"a\",\"startTime\":\"09:00\",\"endTime\":\"11:30\",\"durationMinutes\":150}]}''))
       = ''Monday, Wednesday''
   \<and> formatTimeSlots
        [''{\"days\":[\"Monday\",\"Wednesday\"],\"timeSlots\":[{\"id\":\"a\",\"startTime\":\"09:00\",\"endTime\":\"11:30\",\"durationMinutes\":150}]}''
           \<mapsto> scheduleObject
                \<lparr>days = [''Monday'', ''Wednesday''],
                 timeSlots = [\<lparr>slot_id = ''a'', startTime = ''09:00'', endTime = ''11:30'',
                               durationMinutes = Num 150\<rparr>]\<rparr>]
        (Some (JStr ''{days: Monday''))
       = Inr ''Not specified''"
proof -
  let ?str = "''{\"days\":[\"Monday\",\"Wednesday\"],\"timeSlots\":[{\"id\":\"a\",\"startTime\":\"09:00\",\"endTime\":\"11:30\",\"durationMinutes\":150}]}''"
  let ?s = "\<lparr>days = [''Monday'', ''Wednesday''],
             timeSlots = [\<lparr>slot_id = ''a'', startTime = ''09:00'', endTime = ''11:30'',
                           durationMinutes = Num 150\<rparr>]\<rparr>"
  let ?parse = "[?str \<mapsto> scheduleObject ?s]"
  have ne: "?str \<noteq> []" by simp
  have decoded: "?parse ?str = Some (scheduleObject ?s)" by simp
  have invalid: "?parse ''{days: Monday'' = None" by simp
  have slots: "formatTimeSlots ?parse (Some (scheduleObject ?s)) = Inr ''09:00 - 11:30 (2h 30m)''"
    by code_simp
  have ds: "join '', '' (days ?s) = ''Monday, Wednesday''" by simp
  from schedule_string_form_reads_alike[of ?str ?parse ?s]
       schedule_string_form_reads_alike[of "''{days: Monday''" ?parse ?s]
       ne decoded invalid slots ds
  show ?thesis by metis
qed

end
